theory Spec2Isabelle
  imports Main
begin

section \<open>Data model\<close>

text \<open>
  The development follows \<^verbatim>\<open>src/api/telegramAPI.js\<close>: the axios instance built by
  \<^verbatim>\<open>createTelegramAPI\<close> (the transport with its retry interceptor) and the class
  \<^verbatim>\<open>TelegramAPI\<close> (connection state, reconnection, polling, dispatch). This is
  the module the application component imports; the repository also holds an earlier
  copy of it, without reconnection, without the chat filter and without the change test
  in \<^verbatim>\<open>setConnected\<close>, which is not modelled.

  Every \<^verbatim>\<open>async\<close> method is modelled as one sequential run from call to
  settlement: it takes the object's fields as a record and returns the list of observable
  effects in program order together with the updated fields. Where a method can reject,
  the result carries the error message as \<open>Some msg\<close>. The remote service is a
  parameter (\<open>network\<close>) that fixes the reply to every request attempt. A log entry
  is its level and its text; a text that embeds a number or a list is cut after its
  constant part.
\<close>

datatype level = Debug | Info | Warning | Error | Success

text \<open>
  An incoming update. \<open>chat_id\<close> and \<open>cb_chat_id\<close> stand for
  \<^verbatim>\<open>message.chat.id.toString()\<close>; \<open>msg_text = None\<close> is a message without a
  \<^verbatim>\<open>text\<close> field.
\<close>

record message =
  chat_id :: string
  msg_text :: "string option"

record callback_query =
  query_id :: string
  data :: string
  cb_chat_id :: string

record update =
  update_id :: int
  message :: "message option"
  callback_query :: "callback_query option"

text \<open>The arguments a command handler is invoked with, one constructor per call site.\<close>

datatype call =
    OnCallback callback_query
  | OnCallbackParam callback_query string
  | OnCommand message "string list"
  | OnMessage message

text \<open>
  A registered handler: \<open>None\<close> when the awaited call resolves, \<open>Some msg\<close> when it
  throws an error with that message. Handlers reach the object only through
  \<^verbatim>\<open>sendMessage\<close> and \<^verbatim>\<open>sendFile\<close>, which leave its fields alone.
\<close>

type_synonym handler = "call \<Rightarrow> string option"

datatype request =
    GetMe
  | GetUpdates int
  | AnswerCallbackQuery string
  | SendMessage "string option" string

datatype event =
    Http request
  | Sleep nat
  | Log level string
  | Notify nat bool
  | Invoke string call
  | SetTimeout nat
  | ClearTimeout
  | SetInterval nat
  | ClearInterval
  | SetProcessing bool

text \<open>
  One attempt of a request either yields a response body or fails; a failure carries
  \<^verbatim>\<open>error.response?.status\<close> (\<open>None\<close> for a network error) and the error
  message.
\<close>

datatype 'a reply = Response 'a | Rejected "nat option" string

text \<open>
  The remote service: the reply to each request, indexed by the value of
  \<^verbatim>\<open>config._retryCount\<close> with which the attempt is sent. A \<^verbatim>\<open>getMe\<close> result is
  the bot's id and username, a \<^verbatim>\<open>getUpdates\<close> result the update array of
  \<^verbatim>\<open>response.data.result\<close>; \<open>None\<close> is a missing result.
\<close>

record network =
  getMe_reply :: "nat \<Rightarrow> (nat \<times> string) option reply"
  getUpdates_reply :: "int \<Rightarrow> nat \<Rightarrow> update list option reply"
  post_reply :: "request \<Rightarrow> nat \<Rightarrow> unit reply"

record api_state =
  api :: "string option"
  token :: "string option"
  chatId :: "string option"
  lastUpdateId :: int
  connected :: bool
  connectionListeners :: "nat list"
  commandHandlers :: "string \<rightharpoonup> handler"
  reconnectTimer :: "nat option"
  reconnectAttempts :: nat
  maxReconnectAttempts :: nat
  updatePollingInterval :: "nat option"
  isPolling :: bool

text \<open>
  \<open>api\<close> is the axios instance (\<open>None\<close> for \<^verbatim>\<open>null\<close>), identified by the token in
  its base URL. \<open>connectionListeners\<close> holds the listeners by number; calling listener
  \<open>l\<close> with \<open>s\<close> is the effect \<open>Notify l s\<close>. \<open>reconnectTimer\<close> and
  \<open>updatePollingInterval\<close> hold the timer handle, identified by its delay; arming and
  cancelling a timer are the effects \<open>SetTimeout\<close>, \<open>ClearTimeout\<close>,
  \<open>SetInterval\<close> and \<open>ClearInterval\<close>.
\<close>

definition constructor :: api_state where
  "constructor = \<lparr> api = None, token = None, chatId = None, lastUpdateId = 0,
     connected = False, connectionListeners = [], commandHandlers = Map.empty,
     reconnectTimer = None, reconnectAttempts = 0, maxReconnectAttempts = 10,
     updatePollingInterval = None, isPolling = False \<rparr>"

text \<open>JavaScript truthiness of a string that may be \<^verbatim>\<open>null\<close> or \<^verbatim>\<open>undefined\<close>.\<close>

definition truthy :: "string option \<Rightarrow> bool" where
  "truthy s = (case s of None \<Rightarrow> False | Some t \<Rightarrow> t \<noteq> [])"

section \<open>Bot transport\<close>

text \<open>The request interceptor sets \<^verbatim>\<open>config.retry = 3\<close> on every request.\<close>

definition retry :: nat where
  "retry = 3"

text \<open>\<^verbatim>\<open>!status || status >= 500 || status === 429\<close>\<close>

definition transient :: "nat option \<Rightarrow> bool" where
  "transient status = (case status of None \<Rightarrow> True | Some s \<Rightarrow> s = 0 \<or> s \<ge> 500 \<or> s = 429)"

text \<open>
  A request sent through the instance, from the attempt with \<^verbatim>\<open>_retryCount = c\<close>
  until the promise settles: the response interceptor either re-sends the request after a
  delay or rejects with the error (\<open>Inl\<close>).
\<close>

function api_request :: "(nat \<Rightarrow> 'a reply) \<Rightarrow> request \<Rightarrow> nat \<Rightarrow> event list \<times> ((nat option \<times> string) + 'a)" where
  "api_request srv r c =
     (case srv c of
        Response body \<Rightarrow> ([Http r], Inr body)
      | Rejected status msg \<Rightarrow>
          if retry = 0 then ([Http r, Log Error (''Telegram API error: '' @ msg)], Inl (status, msg))
          else if transient status \<and> c < retry then
            (let c' = c + 1;
                 delay = 2 ^ c' * 1000;
                 (evs, res) = api_request srv r c'
             in ([Http r, Log Warning ''Retrying Telegram API request'', Sleep delay] @ evs, res))
          else ([Http r, Log Error (''Telegram API error after retries: '' @ msg)], Inl (status, msg)))"
  by pat_completeness auto
termination
  by (relation "measure (\<lambda>(srv, r, c). retry - c)") auto

declare api_request.simps [simp del]

text \<open>
  \<^verbatim>\<open>this.api.get(...)\<close> and \<^verbatim>\<open>this.api.post(...)\<close>: with \<^verbatim>\<open>this.api\<close> null the
  property access throws a TypeError before anything is sent.
\<close>

definition api_call :: "api_state \<Rightarrow> (nat \<Rightarrow> 'a reply) \<Rightarrow> request \<Rightarrow> event list \<times> ((nat option \<times> string) + 'a)" where
  "api_call st srv r =
     (case api st of
        None \<Rightarrow> ([], Inl (None, ''Cannot read properties of null''))
      | Some _ \<Rightarrow> api_request srv r 0)"

definition createTelegramAPI :: "string option \<Rightarrow> string option" where
  "createTelegramAPI tok = (if \<not> truthy tok then None else tok)"

section \<open>Connection state machine\<close>

definition setConnected :: "bool \<Rightarrow> api_state \<Rightarrow> event list \<times> api_state" where
  "setConnected status st =
     (let wasConnected = connected st;
          st' = st\<lparr>connected := status\<rparr>
      in if wasConnected \<noteq> status
         then (Log Info (''Telegram connection status: '' @ (if status then ''Connected'' else ''Disconnected''))
                 # map (\<lambda>listener. Notify listener status) (connectionListeners st'), st')
         else ([], st'))"

text \<open>The interval callback itself is \<open>pollCallback\<close> below.\<close>

definition startUpdatePolling :: "api_state \<Rightarrow> event list \<times> api_state" where
  "startUpdatePolling st =
     (if isPolling st then ([], st)
      else ([SetInterval 3000], st\<lparr>isPolling := True, updatePollingInterval := Some 3000\<rparr>))"

definition stopUpdatePolling :: "api_state \<Rightarrow> event list \<times> api_state" where
  "stopUpdatePolling st =
     (let (e, st1) = (case updatePollingInterval st of
                        Some _ \<Rightarrow> ([ClearInterval], st\<lparr>updatePollingInterval := None\<rparr>)
                      | None \<Rightarrow> ([], st))
      in (e, st1\<lparr>isPolling := False\<rparr>))"

text \<open>
  \<^verbatim>\<open>handleDisconnection\<close> up to the point where the reconnect timer is armed; what
  the timer runs when it fires is \<open>reconnectCallback\<close>.
\<close>

definition handleDisconnection :: "api_state \<Rightarrow> event list \<times> api_state" where
  "handleDisconnection st =
     (let (e1, st1) = setConnected False st;
          (e2, st2) = stopUpdatePolling st1;
          e3 = (case reconnectTimer st2 of Some _ \<Rightarrow> [ClearTimeout] | None \<Rightarrow> [])
      in if reconnectAttempts st2 < maxReconnectAttempts st2
         then (let delay = min 30000 (2 ^ reconnectAttempts st2 * 1000)
               in (e1 @ e2 @ e3 @ [Log Warning ''Telegram disconnected. Reconnecting'', SetTimeout delay],
                   st2\<lparr>reconnectTimer := Some delay\<rparr>))
         else (e1 @ e2 @ e3 @ [Log Error ''Failed to reconnect to Telegram''], st2))"

definition testConnection :: "network \<Rightarrow> api_state \<Rightarrow> event list \<times> api_state \<times> bool" where
  "testConnection net st =
     (case api_call st (getMe_reply net) GetMe of
        (e, Inr botInfo) \<Rightarrow>
          (case botInfo of
             Some (bot_id, username) \<Rightarrow>
               if bot_id \<noteq> 0
               then (e @ [Log Success (''Connected to Telegram bot: '' @ username)],
                     st\<lparr>reconnectAttempts := 0\<rparr>, True)
               else (e, st, False)
           | None \<Rightarrow> (e, st, False))
      | (e, Inl (status, msg)) \<Rightarrow>
          (let (e', st') = handleDisconnection st
           in (e @ [Log Error (''Failed to connect to Telegram: '' @ msg)] @ e', st', False)))"

text \<open>The function handed to \<^verbatim>\<open>setTimeout\<close> in \<^verbatim>\<open>handleDisconnection\<close>.\<close>

definition reconnectCallback :: "network \<Rightarrow> api_state \<Rightarrow> event list \<times> api_state" where
  "reconnectCallback net st =
     (let st1 = st\<lparr>reconnectAttempts := reconnectAttempts st + 1\<rparr>
      in if truthy (token st1) \<and> truthy (chatId st1)
         then (let st2 = st1\<lparr>api := createTelegramAPI (token st1)\<rparr>;
                   (e, st3, success) = testConnection net st2
               in if success
                  then (let (e1, st4) = setConnected True st3;
                            (e2, st5) = startUpdatePolling st4
                        in (e @ e1 @ e2, st5))
                  else (e, st3))
         else ([], st1))"



section \<open>Update dispatcher\<close>

text \<open>
  \<^verbatim>\<open>sendMessage\<close> catches the rejection of its own request and returns
  \<^verbatim>\<open>false\<close>; it never throws and never touches a field.
\<close>

definition sendMessage :: "network \<Rightarrow> api_state \<Rightarrow> string \<Rightarrow> event list \<times> bool" where
  "sendMessage net st txt =
     (if \<not> connected st then ([], False)
      else (case api_call st (post_reply net (SendMessage (chatId st) txt)) (SendMessage (chatId st) txt) of
              (e, Inr _) \<Rightarrow> (e, True)
            | (e, Inl (status, msg)) \<Rightarrow> (e @ [Log Error (''Failed to send message: '' @ msg)], False)))"

definition getUpdates :: "network \<Rightarrow> api_state \<Rightarrow> event list \<times> api_state \<times> update list" where
  "getUpdates net st =
     (if \<not> connected st then ([], st, [])
      else (case api_call st (getUpdates_reply net (lastUpdateId st + 1)) (GetUpdates (lastUpdateId st + 1)) of
              (e, Inr result) \<Rightarrow>
                (let updates = (case result of Some us \<Rightarrow> us | None \<Rightarrow> [])
                 in (e,
                     if length updates > 0
                     then st\<lparr>lastUpdateId := update_id (updates ! (length updates - 1))\<rparr>
                     else st,
                     updates))
            | (e, Inl (status, msg)) \<Rightarrow>
                (let (e', st') = handleDisconnection st
                 in (e @ [Log Error (''Failed to get updates: '' @ msg)] @ e', st', []))))"

text \<open>
  \<^verbatim>\<open>String.prototype.split\<close> with a one-character separator (the result is never
  empty) and \<^verbatim>\<open>Array.prototype.join\<close>.
\<close>

fun split :: "char \<Rightarrow> string \<Rightarrow> string list" where
  "split sep [] = [[]]"
| "split sep (c # cs) =
     (if c = sep then [] # split sep cs
      else (let rest = split sep cs in (c # hd rest) # tl rest))"

fun join :: "char \<Rightarrow> string list \<Rightarrow> string" where
  "join sep [] = []"
| "join sep [p] = p"
| "join sep (p # q # ps) = p @ sep # join sep (q # ps)"

text \<open>\<^verbatim>\<open>toLowerCase\<close> on the ASCII letters.\<close>

definition toLowerCase :: "string \<Rightarrow> string" where
  "toLowerCase s =
     map (\<lambda>c. if 65 \<le> (of_char c :: nat) \<and> (of_char c :: nat) \<le> 90
               then char_of ((of_char c :: nat) + 32) else c) s"

text \<open>
  The authorization test
  \<^verbatim>\<open>chat.id.toString() !== this.chatId.toString()\<close>: with \<^verbatim>\<open>this.chatId\<close> null the
  second \<^verbatim>\<open>toString\<close> throws (\<open>Inl\<close>).
\<close>

definition otherChat :: "api_state \<Rightarrow> string \<Rightarrow> string + bool" where
  "otherChat st chat =
     (case chatId st of
        None \<Rightarrow> Inl ''Cannot read properties of null''
      | Some configured \<Rightarrow> Inr (chat \<noteq> configured))"

text \<open>
  The callback branch of \<^verbatim>\<open>processUpdate\<close>. The result is the effects and, when the
  branch throws, the error message.
\<close>

definition handleCallback :: "network \<Rightarrow> api_state \<Rightarrow> callback_query \<Rightarrow> event list \<times> string option" where
  "handleCallback net st q =
     (let e0 = [Log Info (''Received callback query: '' @ data q)]
      in case api_call st (post_reply net (AnswerCallbackQuery (query_id q))) (AnswerCallbackQuery (query_id q)) of
           (e, Inl (status, msg)) \<Rightarrow> (e0 @ e, Some msg)
         | (e, Inr _) \<Rightarrow>
             (case commandHandlers st (data q) of
                Some h \<Rightarrow> (e0 @ e @ [Invoke (data q) (OnCallback q)], h (OnCallback q))
              | None \<Rightarrow>
                  if CHR ''_'' \<in> set (data q)
                  then (let parts = split CHR ''_'' (data q);
                            command = hd parts;
                            params = tl parts
                        in case commandHandlers st command of
                             Some h \<Rightarrow>
                               (e0 @ e @ [Invoke command (OnCallbackParam q (join CHR ''_'' params))],
                                h (OnCallbackParam q (join CHR ''_'' params)))
                           | None \<Rightarrow>
                               (e0 @ e @ [Log Warning (''No handler for parameterized command: '' @ command)], None))
                  else (e0 @ e @ [Log Warning (''No handler for command: '' @ data q)]
                          @ fst (sendMessage net st (''Command not implemented: '' @ data q)), None)))"

text \<open>The message branch; an absent or empty \<^verbatim>\<open>text\<close> is falsy and skips it.\<close>

definition handleMessage :: "network \<Rightarrow> api_state \<Rightarrow> message \<Rightarrow> event list \<times> string option" where
  "handleMessage net st m =
     (case msg_text m of
        None \<Rightarrow> ([], None)
      | Some t \<Rightarrow>
          if t = [] then ([], None)
          else (let e0 = [Log Info (''Received message: '' @ t)]
                in if hd t = CHR ''/''
                   then (let fullCommand = tl t;
                             parts = split CHR '' '' fullCommand;
                             command = toLowerCase (hd parts);
                             params = tl parts
                         in case commandHandlers st command of
                              Some h \<Rightarrow>
                                (e0 @ [Log Debug (''Executing command: '' @ command), Invoke command (OnCommand m params)],
                                 h (OnCommand m params))
                            | None \<Rightarrow>
                                (e0 @ [Log Warning (''Unknown command: '' @ command)]
                                   @ fst (sendMessage net st (''Unknown command: /'' @ command @ [CHR 0x0A]
                                                                @ ''Type /help for available commands.'')), None))
                   else (case commandHandlers st ''message'' of
                           Some h \<Rightarrow> (e0 @ [Invoke ''message'' (OnMessage m)], h (OnMessage m))
                         | None \<Rightarrow> (e0, None))))"

text \<open>The body of the \<^verbatim>\<open>try\<close> block of \<^verbatim>\<open>processUpdate\<close>.\<close>

definition processUpdate_try :: "network \<Rightarrow> api_state \<Rightarrow> update \<Rightarrow> event list \<times> string option" where
  "processUpdate_try net st u =
     (case (case message u of Some m \<Rightarrow> otherChat st (chat_id m) | None \<Rightarrow> Inr False) of
        Inl err \<Rightarrow> ([], Some err)
      | Inr True \<Rightarrow> ([Log Warning (''Received message from unauthorized chat: '' @ chat_id (the (message u)))], None)
      | Inr False \<Rightarrow>
          (case (case callback_query u of Some q \<Rightarrow> otherChat st (cb_chat_id q) | None \<Rightarrow> Inr False) of
             Inl err \<Rightarrow> ([], Some err)
           | Inr True \<Rightarrow>
               ([Log Warning (''Received callback from unauthorized chat: '' @ cb_chat_id (the (callback_query u)))], None)
           | Inr False \<Rightarrow>
               (case (case callback_query u of Some q \<Rightarrow> handleCallback net st q | None \<Rightarrow> ([], None)) of
                  (e1, Some err) \<Rightarrow> (e1, Some err)
                | (e1, None) \<Rightarrow>
                    (case (case message u of Some m \<Rightarrow> handleMessage net st m | None \<Rightarrow> ([], None)) of
                       (e2, thrown) \<Rightarrow> (e1 @ e2, thrown)))))"

text \<open>
  \<^verbatim>\<open>processUpdate\<close> with its \<^verbatim>\<open>catch\<close> block. The result keeps the shape of an
  awaited call (effects, and the error if the promise rejects) so that the loops below
  treat it as the source's \<^verbatim>\<open>for ... await\<close> does; the inner \<^verbatim>\<open>try\<close> around
  \<^verbatim>\<open>sendMessage\<close> has nothing to catch.
\<close>

definition processUpdate :: "network \<Rightarrow> api_state \<Rightarrow> update \<Rightarrow> event list \<times> string option" where
  "processUpdate net st u =
     (case processUpdate_try net st u of
        (e, None) \<Rightarrow> (e, None)
      | (e, Some err) \<Rightarrow>
          (e @ [Log Error (''Error processing update: '' @ err)]
             @ fst (sendMessage net st (''Error processing command: '' @ err)), None))"

text \<open>
  \<^verbatim>\<open>for (const update of updates) { await this.processUpdate(update); }\<close>: a rejected
  call would leave the loop.
\<close>

fun forEachUpdate :: "network \<Rightarrow> api_state \<Rightarrow> update list \<Rightarrow> event list \<times> string option" where
  "forEachUpdate net st [] = ([], None)"
| "forEachUpdate net st (u # us) =
     (case processUpdate net st u of
        (e, Some err) \<Rightarrow> (e, Some err)
      | (e, None) \<Rightarrow> (let (e', thrown) = forEachUpdate net st us in (e @ e', thrown)))"

text \<open>The function handed to \<^verbatim>\<open>setInterval\<close> in \<^verbatim>\<open>startUpdatePolling\<close>.\<close>

definition pollCallback :: "network \<Rightarrow> api_state \<Rightarrow> event list \<times> api_state" where
  "pollCallback net st =
     (if connected st
      then (let (e1, st1, updates) = getUpdates net st;
                (e2, thrown) = forEachUpdate net st1 updates
            in case thrown of
                 None \<Rightarrow> (e1 @ e2, st1)
               | Some err \<Rightarrow> (e1 @ e2 @ [Log Error (''Error in update polling: '' @ err)], st1))
      else ([], st))"

section \<open>Timers and overlapping runs\<close>

text \<open>
  One firing of the polling interval up to the point where its callback suspends: the
  callback tests \<^verbatim>\<open>this.connected\<close>, \<^verbatim>\<open>getUpdates\<close> tests it again and sends the
  request with offset \<^verbatim>\<open>lastUpdateId + 1\<close>, and the callback waits for the reply.
  \<open>outstanding\<close> lists the offsets of the \<^verbatim>\<open>getUpdates\<close> requests sent and not yet
  answered; the object has no field for it.
\<close>

definition pollCallback_fires :: "api_state \<Rightarrow> int list \<Rightarrow> api_state \<times> int list" where
  "pollCallback_fires st outstanding =
     (if connected st
      then (case api st of
              None \<Rightarrow> (snd (handleDisconnection st), outstanding)
            | Some _ \<Rightarrow> (st, outstanding @ [lastUpdateId st + 1]))
      else (st, outstanding))"

text \<open>
  The application component's own trigger, \<^verbatim>\<open>checkTelegramUpdates\<close>, armed with
  \<^verbatim>\<open>setInterval(checkTelegramUpdates, 3000)\<close>. \<open>processing\<close> and \<open>isConnected\<close>
  are the values of the component's state variables that the callback reads;
  \<^verbatim>\<open>setProcessing(b)\<close> is the effect \<open>SetProcessing b\<close>.
\<close>

definition checkTelegramUpdates :: "bool \<Rightarrow> bool \<Rightarrow> network \<Rightarrow> api_state \<Rightarrow> event list \<times> api_state" where
  "checkTelegramUpdates processing isConnected net st =
     (if processing \<or> \<not> isConnected then ([], st)
      else (let (e1, st1, updates) = getUpdates net st;
                (e2, thrown) = (if length updates > 0
                                then (let (e, t) = forEachUpdate net st1 updates
                                      in (Log Info ''Received updates from Telegram'' # e, t))
                                else ([], None));
                e3 = (case thrown of None \<Rightarrow> [] | Some err \<Rightarrow> [Log Error (''Update error: '' @ err)])
            in ([SetProcessing True] @ e1 @ e2 @ e3 @ [SetProcessing False], st1)))"

text \<open>
  The timeout that is armed after a run of effects, given the one armed before it:
  \<^verbatim>\<open>setTimeout\<close> arms a timer, \<^verbatim>\<open>clearTimeout\<close> cancels it.
\<close>

fun armedTimeout :: "nat option \<Rightarrow> event list \<Rightarrow> nat option" where
  "armedTimeout t [] = t"
| "armedTimeout t (SetTimeout d # es) = armedTimeout (Some d) es"
| "armedTimeout t (ClearTimeout # es) = armedTimeout None es"
| "armedTimeout t (_ # es) = armedTimeout t es"

text \<open>
  The reconnection loop as the timer runtime drives it: while a timeout is armed it
  expires after its delay and runs \<open>reconnectCallback\<close>, which may arm the next one.
  The first argument bounds the number of expiries followed; the result lists the delays
  waited and gives the final fields.
\<close>

fun reconnectLoop :: "nat \<Rightarrow> network \<Rightarrow> api_state \<Rightarrow> nat option \<Rightarrow> nat list \<times> api_state" where
  "reconnectLoop 0 net st t = ([], st)"
| "reconnectLoop (Suc n) net st None = ([], st)"
| "reconnectLoop (Suc n) net st (Some d) =
     (let (e, st1) = reconnectCallback net st;
          (ds, st2) = reconnectLoop n net st1 (armedTimeout None e)
      in (d # ds, st2))"

section \<open>Reading a run of effects\<close>

text \<open>The handler calls, the retry delays and the requested offsets in a run of effects.\<close>

fun invocations :: "event list \<Rightarrow> (string \<times> call) list" where
  "invocations [] = []"
| "invocations (Invoke k c # es) = (k, c) # invocations es"
| "invocations (_ # es) = invocations es"

fun sleeps :: "event list \<Rightarrow> nat list" where
  "sleeps [] = []"
| "sleeps (Sleep d # es) = d # sleeps es"
| "sleeps (_ # es) = sleeps es"

fun requests :: "event list \<Rightarrow> request list" where
  "requests [] = []"
| "requests (Http r # es) = r # requests es"
| "requests (_ # es) = requests es"

text \<open>Effects that belong to the connection state machine.\<close>

fun connectionEffect :: "event \<Rightarrow> bool" where
  "connectionEffect (Notify l s) = True"
| "connectionEffect (SetTimeout d) = True"
| "connectionEffect ClearTimeout = True"
| "connectionEffect (SetInterval d) = True"
| "connectionEffect ClearInterval = True"
| "connectionEffect _ = False"


section \<open>Example configurations\<close>

text \<open>
  A service that is unreachable (every attempt of every request fails without a
  response), and the fields of an object that \<^verbatim>\<open>initialize\<close> has connected with one
  listener registered.
\<close>

definition down :: network where
  "down = \<lparr> getMe_reply = (\<lambda>c. Rejected None ''Network Error''),
            getUpdates_reply = (\<lambda>offset c. Rejected None ''Network Error''),
            post_reply = (\<lambda>r c. Rejected None ''Network Error'') \<rparr>"

definition session :: api_state where
  "session = constructor\<lparr> api := Some ''TOKEN'', token := Some ''TOKEN'', chatId := Some ''42'',
     connected := True, connectionListeners := [0], isPolling := True,
     updatePollingInterval := Some 3000 \<rparr>"

text \<open>
  A service that answers every request at once (with no pending updates), and a registry
  with four handlers, one of which throws.
\<close>

definition up :: network where
  "up = \<lparr> getMe_reply = (\<lambda>c. Response (Some (7, ''monitor_bot''))),
          getUpdates_reply = (\<lambda>offset c. Response (Some [])),
          post_reply = (\<lambda>r c. Response ()) \<rparr>"

definition registry :: "string \<rightharpoonup> handler" where
  "registry = [''storage'' \<mapsto> (\<lambda>c. None), ''back'' \<mapsto> (\<lambda>c. None), ''file'' \<mapsto> (\<lambda>c. None),
       ''screenshot'' \<mapsto> (\<lambda>c. Some ''capture failed'')]"

definition button :: "int \<Rightarrow> string \<Rightarrow> string \<Rightarrow> update" where
  "button n chat d = \<lparr> update_id = n, message = None,
     callback_query = Some \<lparr> query_id = ''q'', data = d, cb_chat_id = chat \<rparr> \<rparr>"

definition texted :: "int \<Rightarrow> string \<Rightarrow> string \<Rightarrow> update" where
  "texted n chat t = \<lparr> update_id = n, message = Some \<lparr> chat_id = chat, msg_text = Some t \<rparr>,
     callback_query = None \<rparr>"



section \<open>Connection state: notifications\<close>

text \<open>
  C9. Setting the connection state to the value it already has changes no field and
  produces no effect: no listener is called and nothing is logged.
\<close>

theorem setConnected_same_state_silent:
  "connected st = s \<Longrightarrow> setConnected s st = ([], st)"
  by (simp add: setConnected_def)

theorem setConnected_same_state_silent_witness:
  "connected (constructor\<lparr>connectionListeners := [0, 1], connected := True\<rparr>) = True
   \<and> setConnected True (constructor\<lparr>connectionListeners := [0, 1], connected := True\<rparr>)
       = ([], constructor\<lparr>connectionListeners := [0, 1], connected := True\<rparr>)"
  using setConnected_same_state_silent [of "constructor\<lparr>connectionListeners := [0, 1], connected := True\<rparr>" True]
  by simp

section \<open>Transport: retries and rejection\<close>

lemma invocations_append: "invocations (xs @ ys) = invocations xs @ invocations ys"
  by (induction xs rule: invocations.induct) auto

lemma sleeps_append: "sleeps (xs @ ys) = sleeps xs @ sleeps ys"
  by (induction xs rule: sleeps.induct) auto


lemma api_request_response:
  "srv c = Response body \<Longrightarrow> api_request srv r c = ([Http r], Inr body)"
  by (simp add: api_request.simps [of srv r c])

lemma api_request_retry:
  "srv c = Rejected status msg \<Longrightarrow> transient status \<Longrightarrow> c < retry \<Longrightarrow>
   api_request srv r c =
     ([Http r, Log Warning ''Retrying Telegram API request'', Sleep (2 ^ (c + 1) * 1000)]
        @ fst (api_request srv r (c + 1)),
      snd (api_request srv r (c + 1)))"
  by (simp add: api_request.simps [of srv r c] Let_def split_beta)

lemma api_request_reject:
  "srv c = Rejected status msg \<Longrightarrow> \<not> (transient status \<and> c < retry) \<Longrightarrow>
   api_request srv r c =
     ([Http r, Log Error (''Telegram API error after retries: '' @ msg)], Inl (status, msg))"
  by (auto simp add: api_request.simps [of srv r c] retry_def)

lemma api_request_cases [case_names response retry reject]:
  assumes "\<And>body. srv c = Response body \<Longrightarrow> P"
    and "\<And>status msg. srv c = Rejected status msg \<Longrightarrow> transient status \<Longrightarrow> c < retry \<Longrightarrow> P"
    and "\<And>status msg. srv c = Rejected status msg \<Longrightarrow> \<not> (transient status \<and> c < retry) \<Longrightarrow> P"
  shows P
  using assms by (cases "srv c") blast+

lemma api_request_invocations: "invocations (fst (api_request srv r c)) = []"
proof (induction srv r c rule: api_request.induct)
  case (1 srv r c)
  show ?case
  proof (cases rule: api_request_cases [of srv c])
    case (response body)
    then show ?thesis by (simp add: api_request_response)
  next
    case (retry status msg)
    with 1 have "invocations (fst (api_request srv r (c + 1))) = []"
      by (simp add: retry_def)
    with retry show ?thesis by (simp add: api_request_retry)
  next
    case (reject status msg)
    then show ?thesis by (simp add: api_request_reject)
  qed
qed

lemma api_request_quiet: "ev \<in> set (fst (api_request srv r c)) \<Longrightarrow> \<not> connectionEffect ev"
proof (induction srv r c rule: api_request.induct)
  case (1 srv r c)
  show ?case
  proof (cases rule: api_request_cases [of srv c])
    case (response body)
    with 1(2) show ?thesis by (auto simp add: api_request_response)
  next
    case (retry status msg)
    with 1(1) have "ev \<in> set (fst (api_request srv r (c + 1))) \<Longrightarrow> \<not> connectionEffect ev"
      by (simp add: retry_def)
    with retry 1(2) show ?thesis by (auto simp add: api_request_retry)
  next
    case (reject status msg)
    with 1(2) show ?thesis by (auto simp add: api_request_reject)
  qed
qed


lemma api_request_policy:
  "c \<le> retry \<Longrightarrow>
   \<exists>k. c \<le> k \<and> k \<le> retry
     \<and> (\<forall>j. c \<le> j \<and> j < k \<longrightarrow> (\<exists>status msg. srv j = Rejected status msg \<and> transient status))
     \<and> sleeps (fst (api_request srv r c)) = map (\<lambda>n. 2 ^ n * 1000) [c + 1 ..< k + 1]
     \<and> requests (fst (api_request srv r c)) = replicate (k + 1 - c) r
     \<and> (case snd (api_request srv r c) of
          Inr body \<Rightarrow> srv k = Response body
        | Inl (status, msg) \<Rightarrow> srv k = Rejected status msg \<and> (transient status \<longrightarrow> k = retry))"
proof (induction "retry - c" arbitrary: c)
  case 0
  then have c: "c = retry" by simp
  show ?case
  proof (cases "srv c")
    case (Response body)
    then show ?thesis
      by (intro exI [of _ c]) (auto simp add: api_request_response c)
  next
    case (Rejected status msg)
    then show ?thesis using c
      by (intro exI [of _ c]) (auto simp add: api_request_reject)
  qed
next
  case (Suc n)
  then have lt: "c < retry" by simp
  show ?case
  proof (cases rule: api_request_cases [of srv c])
    case (response body)
    then show ?thesis using Suc.prems
      by (intro exI [of _ c]) (auto simp add: api_request_response)
  next
    case (retry status msg)
    have "n = retry - (c + 1)" "c + 1 \<le> retry" using Suc.hyps(2) lt by simp_all
    from Suc.hyps(1) [OF this] obtain k where k: "c + 1 \<le> k" "k \<le> retry"
      "\<forall>j. c + 1 \<le> j \<and> j < k \<longrightarrow> (\<exists>status msg. srv j = Rejected status msg \<and> transient status)"
      "sleeps (fst (api_request srv r (c + 1))) = map (\<lambda>n. 2 ^ n * 1000) [c + 1 + 1 ..< k + 1]"
      "requests (fst (api_request srv r (c + 1))) = replicate (k + 1 - (c + 1)) r"
      "(case snd (api_request srv r (c + 1)) of
          Inr body \<Rightarrow> srv k = Response body
        | Inl (status, msg) \<Rightarrow> srv k = Rejected status msg \<and> (transient status \<longrightarrow> k = retry))"
      by blast
    have prev: "\<forall>j. c \<le> j \<and> j < k \<longrightarrow> (\<exists>status msg. srv j = Rejected status msg \<and> transient status)"
    proof (intro allI impI)
      fix j assume "c \<le> j \<and> j < k"
      then have "j = c \<or> (c + 1 \<le> j \<and> j < k)" by auto
      then show "\<exists>status msg. srv j = Rejected status msg \<and> transient status"
        using retry k(3) by auto
    qed
    have "[c + 1 ..< k + 1] = (c + 1) # [c + 1 + 1 ..< k + 1]"
      using k(1) by (simp add: upt_conv_Cons)
    then have sl: "sleeps (fst (api_request srv r c)) = map (\<lambda>n. 2 ^ n * 1000) [c + 1 ..< k + 1]"
      using retry k(4) by (simp add: api_request_retry)
    have "k + 1 - c = Suc (k + 1 - (c + 1))" using k(1) by simp
    then have rq: "requests (fst (api_request srv r c)) = replicate (k + 1 - c) r"
      using retry k(5) by (simp add: api_request_retry)
    have res: "snd (api_request srv r c) = snd (api_request srv r (c + 1))"
      using retry by (simp add: api_request_retry)
    have "c \<le> k" using k(1) by simp
    with k(2) prev sl rq k(6) show ?thesis unfolding res
      by (intro exI [of _ k]) simp
  next
    case (reject status msg)
    with lt have "\<not> transient status" by auto
    with reject show ?thesis using Suc.prems
      by (intro exI [of _ c]) (auto simp add: api_request_reject)
  qed
qed

section \<open>Callers of the transport\<close>

lemma api_call_invocations: "invocations (fst (api_call st srv r)) = []"
  by (simp add: api_call_def api_request_invocations split: option.splits)

lemma api_call_quiet: "ev \<in> set (fst (api_call st srv r)) \<Longrightarrow> \<not> connectionEffect ev"
  by (auto simp add: api_call_def dest: api_request_quiet split: option.splits)


lemma sendMessage_invocations: "invocations (fst (sendMessage net st txt)) = []"
  using api_call_invocations [of st "post_reply net (SendMessage (chatId st) txt)" "SendMessage (chatId st) txt"]
  by (auto simp add: sendMessage_def invocations_append split: prod.splits sum.splits)

lemma sendMessage_quiet: "ev \<in> set (fst (sendMessage net st txt)) \<Longrightarrow> \<not> connectionEffect ev"
  using api_call_quiet [of ev st "post_reply net (SendMessage (chatId st) txt)" "SendMessage (chatId st) txt"]
  by (auto simp add: sendMessage_def split: prod.splits sum.splits if_splits)

lemma handleDisconnection_connected: "\<not> connected (snd (handleDisconnection st))"
  by (simp add: handleDisconnection_def setConnected_def stopUpdatePolling_def Let_def
      split: option.splits prod.splits)

lemma getUpdates_rejected:
  "connected st \<Longrightarrow>
   api_call st (getUpdates_reply net (lastUpdateId st + 1)) (GetUpdates (lastUpdateId st + 1)) = (e, Inl (status, msg)) \<Longrightarrow>
   getUpdates net st =
     (e @ Log Error (''Failed to get updates: '' @ msg) # fst (handleDisconnection st),
      snd (handleDisconnection st), [])"
  by (simp add: getUpdates_def split_beta)

lemma testConnection_rejected:
  "api_call st (getMe_reply net) GetMe = (e, Inl (status, msg)) \<Longrightarrow>
   testConnection net st =
     (e @ Log Error (''Failed to connect to Telegram: '' @ msg) # fst (handleDisconnection st),
      snd (handleDisconnection st), False)"
  by (simp add: testConnection_def split_beta)

text \<open>
  C8 (as amended). A request through the transport is attempted at most four times: each
  of up to three retries follows an attempt that failed with a network error, a 5xx
  status or status 429, and retry number \<open>n\<close> is sent after a delay of
  \<open>2 ^ n * 1000\<close> ms. The promise resolves with the response of the last attempt or
  rejects with its error, and it rejects only on a failure of another kind or when the
  third retry has failed. \<^verbatim>\<open>getUpdates\<close> and \<^verbatim>\<open>testConnection\<close> answer a rejection with
  \<^verbatim>\<open>handleDisconnection\<close>, which leaves the object disconnected;
  \<^verbatim>\<open>sendMessage\<close> contains it and has no effect on the connection state machine.
\<close>

theorem transport_retry_and_propagation:
  "(\<exists>k\<le>3. (\<forall>j<k. \<exists>status msg. srv j = Rejected status msg \<and> transient status)
        \<and> sleeps (fst (api_request srv r 0)) = map (\<lambda>n. 2 ^ n * 1000) [1 ..< k + 1]
        \<and> requests (fst (api_request srv r 0)) = replicate (k + 1) r
        \<and> (case snd (api_request srv r 0) of
              Inr body \<Rightarrow> srv k = Response body
            | Inl (status, msg) \<Rightarrow> srv k = Rejected status msg \<and> (transient status \<longrightarrow> k = 3)))
   \<and> (connected st
        \<and> api_call st (getUpdates_reply net (lastUpdateId st + 1)) (GetUpdates (lastUpdateId st + 1)) = (e, Inl (status, msg))
      \<longrightarrow> getUpdates net st =
            (e @ Log Error (''Failed to get updates: '' @ msg) # fst (handleDisconnection st),
             snd (handleDisconnection st), []))
   \<and> (api_call st (getMe_reply net) GetMe = (e, Inl (status, msg))
      \<longrightarrow> testConnection net st =
            (e @ Log Error (''Failed to connect to Telegram: '' @ msg) # fst (handleDisconnection st),
             snd (handleDisconnection st), False))
   \<and> \<not> connected (snd (handleDisconnection st))
   \<and> (\<forall>ev\<in>set (fst (sendMessage net st txt)). \<not> connectionEffect ev)"
proof -
  have "0 \<le> retry" by simp
  from api_request_policy [OF this, of srv r] obtain k where k: "k \<le> retry"
    "\<forall>j. 0 \<le> j \<and> j < k \<longrightarrow> (\<exists>status msg. srv j = Rejected status msg \<and> transient status)"
    "sleeps (fst (api_request srv r 0)) = map (\<lambda>n. 2 ^ n * 1000) [0 + 1 ..< k + 1]"
    "requests (fst (api_request srv r 0)) = replicate (k + 1 - 0) r"
    "(case snd (api_request srv r 0) of
        Inr body \<Rightarrow> srv k = Response body
      | Inl (status, msg) \<Rightarrow> srv k = Rejected status msg \<and> (transient status \<longrightarrow> k = retry))"
    by blast
  have policy: "\<exists>k\<le>3. (\<forall>j<k. \<exists>status msg. srv j = Rejected status msg \<and> transient status)
        \<and> sleeps (fst (api_request srv r 0)) = map (\<lambda>n. 2 ^ n * 1000) [1 ..< k + 1]
        \<and> requests (fst (api_request srv r 0)) = replicate (k + 1) r
        \<and> (case snd (api_request srv r 0) of
              Inr body \<Rightarrow> srv k = Response body
            | Inl (status, msg) \<Rightarrow> srv k = Rejected status msg \<and> (transient status \<longrightarrow> k = 3))"
    using k unfolding retry_def by (intro exI [of _ k]) simp
  show ?thesis
    using policy getUpdates_rejected testConnection_rejected handleDisconnection_connected sendMessage_quiet
    by blast
qed

theorem transport_retry_and_propagation_witness:
  "sleeps (fst (api_request (getMe_reply down) GetMe 0)) = [2000, 4000, 8000]
   \<and> requests (fst (api_request (getMe_reply down) GetMe 0)) = [GetMe, GetMe, GetMe, GetMe]
   \<and> snd (api_request (getMe_reply down) GetMe 0) = Inl (None, ''Network Error'')
   \<and> connected session
   \<and> snd (api_call session (getUpdates_reply down (lastUpdateId session + 1)) (GetUpdates (lastUpdateId session + 1)))
       = Inl (None, ''Network Error'')
   \<and> snd (snd (getUpdates down session)) = []
   \<and> \<not> connected (fst (snd (getUpdates down session)))
   \<and> snd (api_call session (getMe_reply down) GetMe) = Inl (None, ''Network Error'')
   \<and> \<not> connected (fst (snd (testConnection down session)))
   \<and> filter connectionEffect (fst (sendMessage down session ''hello'')) = []"
proof -
  obtain e where e: "api_call session (getUpdates_reply down (lastUpdateId session + 1)) (GetUpdates (lastUpdateId session + 1))
      = (e, Inl (None, ''Network Error''))"
    by (cases "api_call session (getUpdates_reply down (lastUpdateId session + 1)) (GetUpdates (lastUpdateId session + 1))")
      (simp add: api_call_def session_def constructor_def down_def api_request_retry api_request_reject
        retry_def transient_def)
  obtain e' where e': "api_call session (getMe_reply down) GetMe = (e', Inl (None, ''Network Error''))"
    by (cases "api_call session (getMe_reply down) GetMe")
      (simp add: api_call_def session_def constructor_def down_def api_request_retry api_request_reject
        retry_def transient_def)
  have c: "connected session" by (simp add: session_def constructor_def)
  note t1 = transport_retry_and_propagation [of "getMe_reply down" GetMe session down e None "''Network Error''" "''hello''"]
  note t2 = transport_retry_and_propagation [of "getMe_reply down" GetMe session down e' None "''Network Error''" "''hello''"]
  have a: "sleeps (fst (api_request (getMe_reply down) GetMe 0)) = [2000, 4000, 8000]"
    "requests (fst (api_request (getMe_reply down) GetMe 0)) = [GetMe, GetMe, GetMe, GetMe]"
    "snd (api_request (getMe_reply down) GetMe 0) = Inl (None, ''Network Error'')"
    by (simp_all add: down_def api_request_retry api_request_reject retry_def transient_def)
  have g: "snd (snd (getUpdates down session)) = []" "\<not> connected (fst (snd (getUpdates down session)))"
    using t1 c e by simp_all
  have t: "\<not> connected (fst (snd (testConnection down session)))"
    using t2 e' by simp
  have s: "filter connectionEffect (fst (sendMessage down session ''hello'')) = []"
    using t1 by (simp add: filter_empty_conv)
  show ?thesis using a c e e' g t s by simp
qed

text \<open>
  Against C8 as stated: a \<^verbatim>\<open>sendMessage\<close> request that still fails after its three
  retries is logged and answered with \<^verbatim>\<open>false\<close>; listeners are not notified, polling is
  not stopped and no reconnection is scheduled.
\<close>

theorem failed_send_is_no_connection_loss:
  "sendMessage down session ''hello'' =
     ([Http (SendMessage (Some ''42'') ''hello''), Log Warning ''Retrying Telegram API request'', Sleep 2000,
       Http (SendMessage (Some ''42'') ''hello''), Log Warning ''Retrying Telegram API request'', Sleep 4000,
       Http (SendMessage (Some ''42'') ''hello''), Log Warning ''Retrying Telegram API request'', Sleep 8000,
       Http (SendMessage (Some ''42'') ''hello''),
       Log Error ''Telegram API error after retries: Network Error'',
       Log Error ''Failed to send message: Network Error''], False)
   \<and> \<not> (\<exists>ev \<in> set (fst (sendMessage down session ''hello'')). connectionEffect ev)"
  by code_simp

section \<open>Splitting callback data\<close>





section \<open>Dispatch of one update\<close>


lemma processUpdate_invocations:
  "invocations (fst (processUpdate net st u)) = invocations (fst (processUpdate_try net st u))"
  by (auto simp add: processUpdate_def invocations_append sendMessage_invocations split: prod.splits option.splits)


lemma processUpdate_try_message:
  assumes "chatId st = Some (chat_id m)" "message u = Some m" "callback_query u = None"
  shows "processUpdate_try net st u = handleMessage net st m"
  using assms by (auto simp add: processUpdate_try_def otherChat_def split: prod.splits option.splits)



text \<open>
  C3. An update whose message or callback query comes from a chat other than the
  configured one is dropped: processing it logs one warning and does nothing else, so no
  handler is called and no request (acknowledgment or reply) is sent.
\<close>

theorem other_chat_dropped:
  assumes "chatId st = Some configured"
    and "(\<exists>m. message u = Some m \<and> chat_id m \<noteq> configured)
         \<or> (\<exists>q. callback_query u = Some q \<and> cb_chat_id q \<noteq> configured)"
  shows "(\<exists>w. processUpdate net st u = ([Log Warning w], None))
         \<and> invocations (fst (processUpdate net st u)) = []
         \<and> requests (fst (processUpdate net st u)) = []"
proof -
  have "\<exists>w. processUpdate_try net st u = ([Log Warning w], None)"
    using assms
    by (auto simp add: processUpdate_try_def otherChat_def split: option.splits bool.splits)
  then obtain w where "processUpdate_try net st u = ([Log Warning w], None)" ..
  then have "processUpdate net st u = ([Log Warning w], None)"
    by (simp add: processUpdate_def)
  then show ?thesis by simp
qed

theorem other_chat_dropped_witness:
  "processUpdate up (session\<lparr>commandHandlers := registry\<rparr>) (button 5 ''666'' ''storage'')
     = ([Log Warning ''Received callback from unauthorized chat: 666''], None)
   \<and> processUpdate up (session\<lparr>commandHandlers := registry\<rparr>) (texted 6 ''666'' ''/storage'')
     = ([Log Warning ''Received message from unauthorized chat: 666''], None)
   \<and> invocations (fst (processUpdate up (session\<lparr>commandHandlers := registry\<rparr>) (button 5 ''666'' ''storage''))) = []
   \<and> requests (fst (processUpdate up (session\<lparr>commandHandlers := registry\<rparr>) (button 5 ''666'' ''storage''))) = []"
proof -
  let ?st = "session\<lparr>commandHandlers := registry\<rparr>"
  have c: "chatId ?st = Some ''42''" by (simp add: session_def constructor_def)
  have h: "(\<exists>m. message (button 5 ''666'' ''storage'') = Some m \<and> chat_id m \<noteq> ''42'')
         \<or> (\<exists>q. callback_query (button 5 ''666'' ''storage'') = Some q \<and> cb_chat_id q \<noteq> ''42'')"
    by (simp add: button_def)
  have a: "processUpdate up ?st (button 5 ''666'' ''storage'')
     = ([Log Warning ''Received callback from unauthorized chat: 666''], None)"
    by (simp add: processUpdate_def processUpdate_try_def otherChat_def button_def session_def constructor_def)
  have b: "processUpdate up ?st (texted 6 ''666'' ''/storage'')
     = ([Log Warning ''Received message from unauthorized chat: 666''], None)"
    by (simp add: processUpdate_def processUpdate_try_def otherChat_def texted_def session_def constructor_def)
  from other_chat_dropped [OF c h, of up] a b show ?thesis by simp
qed

text \<open>
  C10. A message from the configured chat whose text is not empty and does not start
  with \<open>/\<close> is never parsed as a command: the only handler that can be called is the
  one registered under \<open>message\<close>, once, with the message; without such a handler the
  text is logged and nothing is sent.
\<close>

theorem plain_text_routing:
  assumes "chatId st = Some (chat_id m)"
    and "message u = Some m"
    and "callback_query u = None"
    and "msg_text m = Some t"
    and "t \<noteq> []"
    and "hd t \<noteq> CHR ''/''"
  shows "invocations (fst (processUpdate net st u)) =
           (if ''message'' \<in> dom (commandHandlers st) then [(''message'', OnMessage m)] else [])
         \<and> (''message'' \<notin> dom (commandHandlers st)
              \<longrightarrow> processUpdate net st u = ([Log Info (''Received message: '' @ t)], None))"
proof -
  have t: "processUpdate_try net st u = handleMessage net st m"
    by (rule processUpdate_try_message [OF assms(1-3)])
  have i: "invocations (fst (handleMessage net st m)) =
           (if ''message'' \<in> dom (commandHandlers st) then [(''message'', OnMessage m)] else [])"
    using assms(4-6) by (auto simp add: handleMessage_def dom_def split: option.splits)
  have n: "''message'' \<notin> dom (commandHandlers st)
      \<Longrightarrow> handleMessage net st m = ([Log Info (''Received message: '' @ t)], None)"
    using assms(4-6) by (auto simp add: handleMessage_def dom_def split: option.splits)
  have inv: "invocations (fst (processUpdate net st u)) =
           (if ''message'' \<in> dom (commandHandlers st) then [(''message'', OnMessage m)] else [])"
    using i by (simp only: processUpdate_invocations t)
  have quiet: "''message'' \<notin> dom (commandHandlers st)
      \<longrightarrow> processUpdate net st u = ([Log Info (''Received message: '' @ t)], None)"
    using n by (simp add: processUpdate_def t)
  show ?thesis using inv quiet by (rule conjI)
qed

theorem plain_text_routing_witness:
  "invocations (fst (processUpdate up (session\<lparr>commandHandlers := registry(''message'' \<mapsto> (\<lambda>c. None))\<rparr>)
       (texted 8 ''42'' ''hello /storage'')))
     = [(''message'', OnMessage \<lparr> chat_id = ''42'', msg_text = Some ''hello /storage'' \<rparr>)]
   \<and> processUpdate up (session\<lparr>commandHandlers := registry\<rparr>) (texted 8 ''42'' ''hello /storage'')
     = ([Log Info ''Received message: hello /storage''], None)"
proof -
  have a: "invocations (fst (processUpdate up (session\<lparr>commandHandlers := registry(''message'' \<mapsto> (\<lambda>c. None))\<rparr>)
       (texted 8 ''42'' ''hello /storage'')))
     = [(''message'', OnMessage \<lparr> chat_id = ''42'', msg_text = Some ''hello /storage'' \<rparr>)]"
    using plain_text_routing [of "session\<lparr>commandHandlers := registry(''message'' \<mapsto> (\<lambda>c. None))\<rparr>"
        "\<lparr> chat_id = ''42'', msg_text = Some ''hello /storage'' \<rparr>" "texted 8 ''42'' ''hello /storage''"
        "''hello /storage''" up]
    by (simp add: session_def constructor_def texted_def)
  have b: "processUpdate up (session\<lparr>commandHandlers := registry\<rparr>) (texted 8 ''42'' ''hello /storage'')
     = ([Log Info ''Received message: hello /storage''], None)"
    using plain_text_routing [of "session\<lparr>commandHandlers := registry\<rparr>"
        "\<lparr> chat_id = ''42'', msg_text = Some ''hello /storage'' \<rparr>" "texted 8 ''42'' ''hello /storage''"
        "''hello /storage''" up]
    by (simp add: session_def constructor_def texted_def registry_def dom_def)
  show ?thesis using a b by simp
qed

section \<open>Failure isolation\<close>










lemma processUpdate_resolves: "snd (processUpdate net st u) = None"
  by (simp add: processUpdate_def split: prod.splits option.splits)

lemma forEachUpdate_all:
  "forEachUpdate net st us = (concat (map (\<lambda>u. fst (processUpdate net st u)) us), None)"
proof (induction us)
  case Nil
  then show ?case by simp
next
  case (Cons u us)
  obtain e where "processUpdate net st u = (e, None)"
    using processUpdate_resolves [of net st u] by (cases "processUpdate net st u") auto
  with Cons show ?case by simp
qed


lemma pollCallback_connected:
  "connected st \<Longrightarrow>
   pollCallback net st =
     (fst (getUpdates net st)
        @ concat (map (\<lambda>u. fst (processUpdate net (fst (snd (getUpdates net st))) u)) (snd (snd (getUpdates net st)))),
      fst (snd (getUpdates net st)))"
  by (simp add: pollCallback_def forEachUpdate_all split_beta)




section \<open>Cursor and offsets\<close>










section \<open>Reconnection\<close>

lemma armedTimeout_append: "armedTimeout t (xs @ ys) = armedTimeout (armedTimeout t xs) ys"
  by (induction t xs rule: armedTimeout.induct) auto

lemma armedTimeout_notify: "armedTimeout t (map (\<lambda>listener. Notify listener s) ls) = t"
  by (induction ls) auto

lemma armedTimeout_api_request: "armedTimeout t (fst (api_request srv r c)) = t"
proof (induction "retry - c" arbitrary: c)
  case 0
  then show ?case
    by (cases "srv c") (auto simp add: api_request_response api_request_reject)
next
  case (Suc n)
  show ?case
  proof (cases rule: api_request_cases [of srv c])
    case (response body)
    then show ?thesis by (simp add: api_request_response)
  next
    case (retry status msg)
    have "n = retry - (c + 1)" using Suc.hyps(2) by simp
    from Suc.hyps(1) [OF this] retry show ?thesis
      by (simp add: api_request_retry)
  next
    case (reject status msg)
    then show ?thesis by (simp add: api_request_reject)
  qed
qed

lemma handleDisconnection_schedules:
  "reconnectAttempts st < maxReconnectAttempts st \<Longrightarrow>
   armedTimeout t (fst (handleDisconnection st)) = Some (min 30000 (2 ^ reconnectAttempts st * 1000))"
  by (simp add: handleDisconnection_def setConnected_def stopUpdatePolling_def Let_def
      armedTimeout_append armedTimeout_notify split: option.splits prod.splits)

lemma handleDisconnection_gives_up:
  "\<not> reconnectAttempts st < maxReconnectAttempts st \<Longrightarrow>
   armedTimeout None (fst (handleDisconnection st)) = None
   \<and> (\<forall>d. SetTimeout d \<notin> set (fst (handleDisconnection st)))"
  by (auto simp add: handleDisconnection_def setConnected_def stopUpdatePolling_def Let_def
      armedTimeout_append armedTimeout_notify split: option.splits prod.splits)

lemma handleDisconnection_fields:
  "reconnectAttempts (snd (handleDisconnection st)) = reconnectAttempts st"
  "maxReconnectAttempts (snd (handleDisconnection st)) = maxReconnectAttempts st"
  "token (snd (handleDisconnection st)) = token st"
  "chatId (snd (handleDisconnection st)) = chatId st"
  by (simp_all add: handleDisconnection_def setConnected_def stopUpdatePolling_def Let_def
      split: option.splits prod.splits)

lemma reconnectCallback_fails:
  assumes "truthy (token st)" "truthy (chatId st)"
    and "snd (api_request (getMe_reply net) GetMe 0) = Inl f"
  shows "reconnectAttempts (snd (reconnectCallback net st)) = reconnectAttempts st + 1"
    and "maxReconnectAttempts (snd (reconnectCallback net st)) = maxReconnectAttempts st"
    and "token (snd (reconnectCallback net st)) = token st"
    and "chatId (snd (reconnectCallback net st)) = chatId st"
    and "\<not> connected (snd (reconnectCallback net st))"
    and "armedTimeout None (fst (reconnectCallback net st)) =
           (if reconnectAttempts st + 1 < maxReconnectAttempts st
            then Some (min 30000 (2 ^ (reconnectAttempts st + 1) * 1000)) else None)"
proof -
  let ?st2 = "st\<lparr>reconnectAttempts := reconnectAttempts st + 1, api := createTelegramAPI (token st)\<rparr>"
  obtain e status msg where e: "api_request (getMe_reply net) GetMe 0 = (e, Inl (status, msg))"
    using assms(3) by (cases "api_request (getMe_reply net) GetMe 0"; cases f) auto
  have "api ?st2 \<noteq> None"
    using assms(1) by (auto simp add: createTelegramAPI_def truthy_def split: option.splits)
  then have "api_call ?st2 (getMe_reply net) GetMe = (e, Inl (status, msg))"
    using e by (auto simp add: api_call_def)
  from testConnection_rejected [OF this]
  have t: "testConnection net ?st2 =
     (e @ Log Error (''Failed to connect to Telegram: '' @ msg) # fst (handleDisconnection ?st2),
      snd (handleDisconnection ?st2), False)" .
  have r: "reconnectCallback net st =
     (e @ Log Error (''Failed to connect to Telegram: '' @ msg) # fst (handleDisconnection ?st2),
      snd (handleDisconnection ?st2))"
    using assms(1,2) t by (simp add: reconnectCallback_def Let_def)
  have a: "armedTimeout None e = None"
    using armedTimeout_api_request [of None "getMe_reply net" GetMe 0] e by simp
  show "reconnectAttempts (snd (reconnectCallback net st)) = reconnectAttempts st + 1"
    and "maxReconnectAttempts (snd (reconnectCallback net st)) = maxReconnectAttempts st"
    and "token (snd (reconnectCallback net st)) = token st"
    and "chatId (snd (reconnectCallback net st)) = chatId st"
    by (simp_all add: r handleDisconnection_fields)
  show "\<not> connected (snd (reconnectCallback net st))"
    by (simp add: r handleDisconnection_connected)
  show "armedTimeout None (fst (reconnectCallback net st)) =
           (if reconnectAttempts st + 1 < maxReconnectAttempts st
            then Some (min 30000 (2 ^ (reconnectAttempts st + 1) * 1000)) else None)"
    using handleDisconnection_schedules [of ?st2 None] handleDisconnection_gives_up [of ?st2]
    by (simp add: r armedTimeout_append a)
qed

lemma reconnectLoop_expires:
  "fst (reconnectLoop (Suc n) net st (Some d)) =
     d # fst (reconnectLoop n net (snd (reconnectCallback net st)) (armedTimeout None (fst (reconnectCallback net st))))"
  by (simp add: split_beta)

lemma reconnectLoop_delays:
  assumes "truthy (token st)" "truthy (chatId st)"
    and "snd (api_request (getMe_reply net) GetMe 0) = Inl f"
    and "reconnectAttempts st \<le> maxReconnectAttempts st"
  shows "fst (reconnectLoop n net st
            (if reconnectAttempts st < maxReconnectAttempts st
             then Some (min 30000 (2 ^ reconnectAttempts st * 1000)) else None))
         = map (\<lambda>k. min 30000 (2 ^ k * 1000))
             [reconnectAttempts st ..< min (reconnectAttempts st + n) (maxReconnectAttempts st)]"
  using assms
proof (induction n arbitrary: st)
  case 0
  then show ?case by simp
next
  case (Suc n)
  show ?case
  proof (cases "reconnectAttempts st < maxReconnectAttempts st")
    case False
    with Suc.prems(4) show ?thesis by simp
  next
    case True
    let ?s = "snd (reconnectCallback net st)"
    note f = reconnectCallback_fails [OF Suc.prems(1-3)]
    have le: "reconnectAttempts ?s \<le> maxReconnectAttempts ?s"
      using True f(1,2) by simp
    have "fst (reconnectLoop n net ?s
            (if reconnectAttempts ?s < maxReconnectAttempts ?s
             then Some (min 30000 (2 ^ reconnectAttempts ?s * 1000)) else None))
         = map (\<lambda>k. min 30000 (2 ^ k * 1000))
             [reconnectAttempts ?s ..< min (reconnectAttempts ?s + n) (maxReconnectAttempts ?s)]"
    proof (rule Suc.IH)
      show "truthy (token ?s)" using Suc.prems(1) by (simp only: f(3))
      show "truthy (chatId ?s)" using Suc.prems(2) by (simp only: f(4))
      show "snd (api_request (getMe_reply net) GetMe 0) = Inl f" by (rule Suc.prems(3))
      show "reconnectAttempts ?s \<le> maxReconnectAttempts ?s" by (rule le)
    qed
    then have IH: "fst (reconnectLoop n net ?s (armedTimeout None (fst (reconnectCallback net st))))
         = map (\<lambda>k. min 30000 (2 ^ k * 1000))
             [reconnectAttempts st + 1 ..< min (reconnectAttempts st + 1 + n) (maxReconnectAttempts st)]"
      unfolding f(1) f(2) f(6) [symmetric] .
    have u: "[reconnectAttempts st ..< min (reconnectAttempts st + Suc n) (maxReconnectAttempts st)]
        = reconnectAttempts st # [reconnectAttempts st + 1 ..< min (reconnectAttempts st + 1 + n) (maxReconnectAttempts st)]"
      using True by (simp add: upt_conv_Cons)
    have "fst (reconnectLoop (Suc n) net st (Some (min 30000 (2 ^ reconnectAttempts st * 1000))))
         = map (\<lambda>k. min 30000 (2 ^ k * 1000))
             [reconnectAttempts st ..< min (reconnectAttempts st + Suc n) (maxReconnectAttempts st)]"
      unfolding reconnectLoop_expires IH u by simp
    with True show ?thesis by (simp only: if_True)
  qed
qed

lemma map_pred_upt: "map (\<lambda>j. g (j - 1)) [1 ..< Suc m] = map g [0 ..< m]"
proof -
  have "[1 ..< Suc m] = map Suc [0 ..< m]"
    by (simp add: map_Suc_upt)
  then show ?thesis by (simp add: comp_def)
qed

lemma reconnectLoop_after_disconnection:
  assumes "truthy (token st)" and "truthy (chatId st)"
    and "snd (api_request (getMe_reply net) GetMe 0) = Inl f"
    and "reconnectAttempts st = 0" and "maxReconnectAttempts st = 10"
  shows "fst (reconnectLoop n net (snd (handleDisconnection st)) (armedTimeout None (fst (handleDisconnection st))))
           = map (\<lambda>j. min 30000 (1000 * 2 ^ (j - 1))) [1 ..< Suc (min n 10)]"
proof -
  let ?s = "snd (handleDisconnection st)"
  have a: "armedTimeout None (fst (handleDisconnection st)) = Some (min 30000 (2 ^ reconnectAttempts ?s * 1000))"
    using handleDisconnection_schedules [of st None] assms(4,5)
    by (simp add: handleDisconnection_fields)
  have lt: "reconnectAttempts ?s < maxReconnectAttempts ?s"
    using assms(4,5) by (simp add: handleDisconnection_fields)
  have "fst (reconnectLoop n net ?s
            (if reconnectAttempts ?s < maxReconnectAttempts ?s
             then Some (min 30000 (2 ^ reconnectAttempts ?s * 1000)) else None))
         = map (\<lambda>k. min 30000 (2 ^ k * 1000))
             [reconnectAttempts ?s ..< min (reconnectAttempts ?s + n) (maxReconnectAttempts ?s)]"
  proof (rule reconnectLoop_delays)
    show "truthy (token ?s)" using assms(1) by (simp add: handleDisconnection_fields)
    show "truthy (chatId ?s)" using assms(2) by (simp add: handleDisconnection_fields)
    show "snd (api_request (getMe_reply net) GetMe 0) = Inl f" by (rule assms(3))
    show "reconnectAttempts ?s \<le> maxReconnectAttempts ?s" using lt by simp
  qed
  then have "fst (reconnectLoop n net ?s (armedTimeout None (fst (handleDisconnection st))))
         = map (\<lambda>k. min 30000 (2 ^ k * 1000)) [0 ..< min n 10]"
    using lt a assms(4,5) by (simp add: handleDisconnection_fields)
  also have "\<dots> = map (\<lambda>k. min 30000 (1000 * 2 ^ k)) [0 ..< min n 10]"
    by (simp add: mult.commute)
  also have "\<dots> = map (\<lambda>j. min 30000 (1000 * 2 ^ (j - 1))) [1 ..< Suc (min n 10)]"
    by (rule map_pred_upt [symmetric])
  finally show ?thesis .
qed

lemma session_unreachable:
  "truthy (token session)" "truthy (chatId session)"
  "snd (api_request (getMe_reply down) GetMe 0) = Inl (None, ''Network Error'')"
  "reconnectAttempts session = 0" "maxReconnectAttempts session = 10"
  by (simp_all add: session_def constructor_def truthy_def down_def api_request_retry api_request_reject
      retry_def transient_def)

lemma upt_1_11: "[1 ..< 11] = [1, 2, 3, 4, 5, 6, 7, 8, 9, 10 :: nat]"
  by (simp add: upt_rec)

lemma ten_delays:
  "map (\<lambda>j. min 30000 (1000 * 2 ^ (j - 1))) [1 ..< Suc (min 12 10)]
      = [1000, 2000, 4000, 8000, 16000, 30000, 30000, 30000, 30000, 30000 :: nat]"
proof -
  have "Suc (min 12 10) = 11" by simp
  then show ?thesis by (simp only: upt_1_11) simp
qed

text \<open>
  C4 (as amended). After a disconnection with no reconnect attempt made so far, and with
  the liveness check failing every time, reconnect attempt number \<open>j\<close> (\<open>j = 1..10\<close>)
  runs after a delay of \<open>min 30000 (1000 * 2 ^ (j - 1))\<close> ms, that is
  \<open>min 30000 (1000 * 2 ^ attempts)\<close> for the \<open>attempts\<close> made before it; after the tenth
  failed attempt \<^verbatim>\<open>handleDisconnection\<close> arms no timer, so no eleventh attempt follows
  however long the loop is observed.
\<close>

theorem reconnect_backoff:
  assumes "truthy (token st)" and "truthy (chatId st)"
    and "snd (api_request (getMe_reply net) GetMe 0) = Inl f"
    and "reconnectAttempts st = 0" and "maxReconnectAttempts st = 10"
  shows "fst (reconnectLoop n net (snd (handleDisconnection st)) (armedTimeout None (fst (handleDisconnection st))))
           = map (\<lambda>j. min 30000 (1000 * 2 ^ (j - 1))) [1 ..< Suc (min n 10)]
         \<and> (\<forall>d. SetTimeout d \<notin> set (fst (handleDisconnection (st\<lparr>reconnectAttempts := 10\<rparr>))))"
proof -
  have stop: "\<forall>d. SetTimeout d \<notin> set (fst (handleDisconnection (st\<lparr>reconnectAttempts := 10\<rparr>)))"
    using handleDisconnection_gives_up [of "st\<lparr>reconnectAttempts := 10\<rparr>"] assms(5) by simp
  show ?thesis using reconnectLoop_after_disconnection [OF assms] stop by (rule conjI)
qed

theorem reconnect_backoff_witness:
  "fst (reconnectLoop 12 down (snd (handleDisconnection session)) (armedTimeout None (fst (handleDisconnection session))))
     = [1000, 2000, 4000, 8000, 16000, 30000, 30000, 30000, 30000, 30000]"
  using reconnect_backoff [OF session_unreachable, of 12] by (simp only: ten_delays)

text \<open>
  Against C4 as stated: the first reconnect attempt is scheduled after 1000 ms, not after
  \<open>min 30000 (1000 * 2 ^ 1)\<close> = 2000 ms, and the delays of attempts 1 to 10 are not the
  sequence \<open>min 30000 (1000 * 2 ^ n)\<close> for \<open>n = 1..10\<close>.
\<close>

theorem first_reconnect_after_one_second:
  "armedTimeout None (fst (handleDisconnection session)) = Some 1000
   \<and> fst (reconnectLoop 12 down (snd (handleDisconnection session)) (armedTimeout None (fst (handleDisconnection session))))
       = [1000, 2000, 4000, 8000, 16000, 30000, 30000, 30000, 30000, 30000]
   \<and> map (\<lambda>n. min 30000 (1000 * 2 ^ n)) [1 ..< 11]
       = [2000, 4000, 8000, 16000, 30000, 30000, 30000, 30000, 30000, 30000 :: nat]"
proof -
  have a: "armedTimeout None (fst (handleDisconnection session)) = Some 1000"
    using handleDisconnection_schedules [of session None] session_unreachable(4,5) by simp
  have b: "fst (reconnectLoop 12 down (snd (handleDisconnection session)) (armedTimeout None (fst (handleDisconnection session))))
       = [1000, 2000, 4000, 8000, 16000, 30000, 30000, 30000, 30000, 30000]"
    using reconnectLoop_after_disconnection [OF session_unreachable, of 12] by (simp only: ten_delays)
  have c: "map (\<lambda>n. min 30000 (1000 * 2 ^ n)) [1 ..< 11]
       = [2000, 4000, 8000, 16000, 30000, 30000, 30000, 30000, 30000, 30000 :: nat]"
    by (simp only: upt_1_11) simp
  show ?thesis using a b c by simp
qed

section \<open>Initialization\<close>








section \<open>Overlapping poll cycles\<close>

lemma checkTelegramUpdates_guard:
  "checkTelegramUpdates True isConnected net st = ([], st)"
  by (simp add: checkTelegramUpdates_def)

lemma checkTelegramUpdates_brackets:
  "isConnected \<Longrightarrow>
   \<exists>e. fst (checkTelegramUpdates False isConnected net st) = SetProcessing True # e @ [SetProcessing False]"
  by (simp add: checkTelegramUpdates_def split_beta)

lemma pollCallback_first_request:
  assumes "connected st" and "api st \<noteq> None"
  shows "\<exists>es. fst (pollCallback net st) = Http (GetUpdates (lastUpdateId st + 1)) # es"
proof -
  let ?r = "GetUpdates (lastUpdateId st + 1)"
  let ?srv = "getUpdates_reply net (lastUpdateId st + 1)"
  have "\<exists>es. fst (api_request ?srv ?r 0) = Http ?r # es"
    by (cases rule: api_request_cases [of ?srv 0])
      (auto simp add: api_request_response api_request_retry api_request_reject)
  then obtain es where es: "fst (api_request ?srv ?r 0) = Http ?r # es" ..
  obtain e res where r: "api_request ?srv ?r 0 = (e, res)"
    by (cases "api_request ?srv ?r 0") auto
  with es have e: "e = Http ?r # es" by simp
  have "\<exists>es. fst (getUpdates net st) = Http ?r # es"
    using assms r e
    by (auto simp add: getUpdates_def api_call_def Let_def split_beta split: sum.splits option.splits)
  then show ?thesis
    by (auto simp add: pollCallback_connected [OF assms(1)])
qed

text \<open>
  C1. The polling interval of \<^verbatim>\<open>startUpdatePolling\<close> is not guarded against a cycle
  still in flight: its callback tests only \<^verbatim>\<open>this.connected\<close>. On a connected object
  with cursor 0, a firing sends \<^verbatim>\<open>getUpdates\<close> with offset 1; a second firing before
  the reply sends the same request again, so that two cycles are in flight with the same
  offset.
\<close>

theorem overlapping_polls:
  "snd (pollCallback_fires session []) = [1]
   \<and> snd (pollCallback_fires (fst (pollCallback_fires session [])) (snd (pollCallback_fires session []))) = [1, 1]"
  by (simp add: pollCallback_fires_def session_def constructor_def)

end
